theory Spec2Isabelle
  imports Main
begin

section \<open>Python values and exceptions\<close>

text \<open>
  The values that travel through the integration are opaque to it: configuration
  strings, and whatever the client library hands back for a sensor. \<open>PNone\<close> is
  Python's \<open>None\<close>. Floating-point readings are not modelled; no function of the module
  computes with a sensor value.
\<close>

datatype pyval = PNone | PStr string | PInt int | PBool bool

text \<open>
  An exception value stands for an instance of the named class or of one of its
  subclasses, which is what an \<open>except\<close> clause matches. All of them derive from
  \<open>Exception\<close>. \<open>InvalidValue\<close> and \<open>CommandFailed\<close> are the two classes the module
  defines itself; \<open>UpdateFailed\<close> carries the error it was raised from.
\<close>

datatype exn =
    RequestException
  | ValueError
  | KeyError
  | AttributeError
  | OtherException string
  | InvalidValue
  | CommandFailed
  | UpdateFailed exn
  | ConfigEntryNotReady

text \<open>\<open>str(v)\<close>, as an f-string applies it to a value.\<close>

fun str_nat :: "nat \<Rightarrow> string" where
  "str_nat n =
     (if n < 10 then [char_of (48 + n)]
      else str_nat (n div 10) @ [char_of (48 + n mod 10)])"

fun py_str :: "pyval \<Rightarrow> string" where
  "py_str PNone = ''None''"
| "py_str (PStr s) = s"
| "py_str (PInt i) = (if i < 0 then ''-'' @ str_nat (nat (- i)) else str_nat (nat i))"
| "py_str (PBool b) = (if b then ''True'' else ''False'')"

text \<open>\<open>d.get(k)\<close>: the value stored under \<open>k\<close>, \<open>None\<close> where \<open>d\<close> has no such key.\<close>

definition dict_get :: "('k \<rightharpoonup> pyval) \<Rightarrow> 'k \<Rightarrow> pyval" where
  "dict_get d k = (case d k of None \<Rightarrow> PNone | Some v \<Rightarrow> v)"

text \<open>\<open>d[k]\<close>, which raises \<open>KeyError\<close> where \<open>d\<close> has no such key.\<close>

definition dict_item :: "('k \<rightharpoonup> 'v) \<Rightarrow> 'k \<Rightarrow> exn + 'v" where
  "dict_item d k = (case d k of None \<Rightarrow> Inl KeyError | Some v \<Rightarrow> Inr v)"

text \<open>
  \<open>a == b\<close> on values: \<open>bool\<close> is a subclass of \<open>int\<close>, so \<open>True == 1\<close> and
  \<open>False == 0\<close>; values of otherwise different types are unequal.
\<close>

fun py_eq :: "pyval \<Rightarrow> pyval \<Rightarrow> bool" where
  "py_eq PNone PNone = True"
| "py_eq (PStr s) (PStr t) = (s = t)"
| "py_eq (PInt i) (PInt j) = (i = j)"
| "py_eq (PBool b) (PBool c) = (b = c)"
| "py_eq (PInt i) (PBool b) = (i = (if b then 1 else 0))"
| "py_eq (PBool b) (PInt i) = (i = (if b then 1 else 0))"
| "py_eq _ _ = False"

text \<open>
  \<open>d1 == d2\<close> on dictionaries kept as association lists: every key of either has a
  value in both, and the two values are equal. The order of the keys does not matter.
\<close>

definition py_dict_eq :: "(string \<times> pyval) list \<Rightarrow> (string \<times> pyval) list \<Rightarrow> bool" where
  "py_dict_eq d1 d2 =
     list_all (\<lambda>k. rel_option py_eq (map_of d1 k) (map_of d2 k)) (map fst d1 @ map fst d2)"

section \<open>The state-code table\<close>

definition states :: "int \<rightharpoonup> string" where
  "states = map_of
     [(0, ''unknown''),
      (1, ''not connected''),
      (2, ''connected''),
      (3, ''charging''),
      (4, ''vent required''),
      (5, ''diode check failed''),
      (6, ''gfci fault''),
      (7, ''no ground''),
      (8, ''stuck relay''),
      (9, ''gfci self-test failure''),
      (10, ''over temperature''),
      (254, ''sleeping''),
      (255, ''disabled'')]"

section \<open>Sending a command\<close>

text \<open>
  \<open>handler.send_command(command)\<close> belongs to the client library: it either raises or
  answers with a pair \<open>(cmd, response)\<close>. An exception of the handler is not caught by
  \<open>send_command\<close> and leaves it unchanged.
\<close>

definition send_command :: "(string \<Rightarrow> exn + string \<times> string) \<Rightarrow> string \<Rightarrow> exn + unit" where
  "send_command handler command =
     (case handler command of
        Inl e \<Rightarrow> Inl e
      | Inr (cmd, response) \<Rightarrow>
          if cmd = command then
            (if response = ''$NK^21'' then Inl InvalidValue else Inr ())
          else Inl CommandFailed)"

section \<open>The client library\<close>

text \<open>
  \<open>openevsehttp\<close> is an external library, so it is a parameter of every function that
  uses it. \<open>OpenEVSE\<close> is its constructor. \<open>update\<close> is the network call: it raises, or
  leaves the client object refreshed; its outcome may depend on everything the library
  was asked before, so that two polls of the same device need not agree. \<open>getattr\<close> reads
  an attribute of the client object, and may raise as well.

  The calls made into the library are recorded in a log that every function using the
  library takes and returns.
\<close>

datatype lib_call = New_OpenEVSE pyval pyval pyval | Call_update

record 'c openevsehttp =
  OpenEVSE :: "pyval \<Rightarrow> pyval \<Rightarrow> pyval \<Rightarrow> 'c"
  update :: "lib_call list \<Rightarrow> 'c \<Rightarrow> exn + 'c"
  getattr :: "'c \<Rightarrow> string \<Rightarrow> exn + pyval"

section \<open>Constants and host-framework data\<close>

text \<open>The three keys imported from \<open>homeassistant.const\<close>.\<close>

definition CONF_HOST :: string where "CONF_HOST = ''host''"
definition CONF_USERNAME :: string where "CONF_USERNAME = ''username''"
definition CONF_PASSWORD :: string where "CONF_PASSWORD = ''password''"

text \<open>
  The module imports its other constants from \<open>.const\<close>, which is not part of the
  sources at hand: they are parameters, collected in one record. An entry of
  \<open>SENSOR_TYPES\<close> is a description object of which only the field \<open>key\<close> is read; the
  table is an association list in the order of the dictionary, read with \<open>map_of\<close>.
\<close>

record sensor_description =
  key :: string

record const_py =
  CONF_NAME :: string
  COORDINATOR :: string
  DOMAIN :: string
  PLATFORMS :: "string list"
  SENSOR_TYPES :: "(string \<times> sensor_description) list"

datatype listener = Update_listener

text \<open>
  The data and the options of an entry are dictionaries from strings to values, kept as
  association lists in the order of their keys and read with \<open>map_of\<close>.
\<close>

record config_entry =
  entry_id :: string
  data :: "(string \<times> pyval) list"
  options :: "(string \<times> pyval) list"
  update_listeners :: "listener list"

text \<open>\<open>timedelta(seconds=n)\<close>, normalised as Python does.\<close>

record timedelta =
  days :: int
  seconds :: int
  microseconds :: int

definition timedelta_of_seconds :: "int \<Rightarrow> timedelta" where
  "timedelta_of_seconds n = \<lparr>days = n div 86400, seconds = n mod 86400, microseconds = 0\<rparr>"

text \<open>
  The coordinator object: the attributes \<open>__init__\<close> assigns, and the three that the
  base class \<open>DataUpdateCoordinator\<close> keeps (\<open>update_interval\<close>, \<open>data\<close> and
  \<open>last_update_success\<close>). Its reference to \<open>hass\<close> is not stored in the model; the
  functions take \<open>hass\<close> as an argument.
\<close>

record coordinator =
  interval :: timedelta
  name :: string
  config :: config_entry
  update_interval :: timedelta
  coordinator_data :: "(string \<rightharpoonup> pyval) option"
  last_update_success :: bool

record device_entry =
  config_entry_id :: string
  device_name :: pyval
  manufacturer :: string
  model :: string
  sw_version :: pyval

text \<open>
  What the module reads and writes of the host: \<open>hass.data\<close>, the device registry
  (keyed by the connection pair), the platform set-ups handed to \<open>async_create_task\<close>,
  and the reloads asked of \<open>hass.config_entries\<close>.
\<close>

record hass =
  hass_data :: "string \<rightharpoonup> (string \<rightharpoonup> (string \<rightharpoonup> coordinator))"
  device_registry :: "(string \<times> string) \<rightharpoonup> device_entry"
  forward_entry_setups :: "(string \<times> string) list"
  reloads :: "string list"

section \<open>Reading the firmware versions\<close>

text \<open>
  The log calls of the module (\<open>_LOGGER.debug\<close> and the like) have no effect on any
  result and are left out throughout.
\<close>

definition get_firmware ::
  "'c openevsehttp \<Rightarrow> config_entry \<Rightarrow> lib_call list \<Rightarrow> lib_call list \<times> (exn + pyval \<times> pyval)" where
  "get_firmware lib cfg w =
     (let host = dict_get (map_of (data cfg)) CONF_HOST;
          username = dict_get (map_of (data cfg)) CONF_USERNAME;
          password = dict_get (map_of (data cfg)) CONF_PASSWORD;
          charger = OpenEVSE lib host username password;
          w1 = w @ [New_OpenEVSE host username password]
      in case update lib w1 charger of
           Inl error \<Rightarrow> (w1 @ [Call_update], Inr (PStr [], PStr []))
         | Inr charger' \<Rightarrow>
             (w1 @ [Call_update],
              case getattr lib charger' ''wifi_firmware'' of
                Inl e \<Rightarrow> Inl e
              | Inr wifi_firmware \<Rightarrow>
                  (case getattr lib charger' ''openevse_firmware'' of
                     Inl e \<Rightarrow> Inl e
                   | Inr openevse_firmware \<Rightarrow> Inr (wifi_firmware, openevse_firmware))))"

section \<open>Reading the sensors\<close>

text \<open>
  The body of the \<open>try\<close> inside the loop: the one-entry dictionary \<open>_sensor\<close>, or the
  exception raised on the way.
\<close>

definition sensor_try ::
  "'c openevsehttp \<Rightarrow> const_py \<Rightarrow> 'c \<Rightarrow> string \<Rightarrow> exn + (string \<rightharpoonup> pyval)" where
  "sensor_try lib K charger sensor =
     (case dict_item (map_of (SENSOR_TYPES K)) sensor of
        Inl e \<Rightarrow> Inl e
      | Inr description \<Rightarrow>
          let sensor_property = key description
          in if sensor = ''current_power'' then Inr [sensor \<mapsto> PNone]
             else (case getattr lib charger sensor_property of
                     Inl e \<Rightarrow> Inl e
                   | Inr v \<Rightarrow> Inr [sensor \<mapsto> v]))"

text \<open>
  One turn of the loop: \<open>except (RequestException, ValueError, KeyError)\<close> leaves
  \<open>_sensor\<close> empty; any other exception leaves the loop and the function.
\<close>

definition sensor_step ::
  "'c openevsehttp \<Rightarrow> const_py \<Rightarrow> 'c \<Rightarrow> string \<Rightarrow> exn + (string \<rightharpoonup> pyval)" where
  "sensor_step lib K charger sensor =
     (case sensor_try lib K charger sensor of
        Inl e \<Rightarrow>
          if e = RequestException \<or> e = ValueError \<or> e = KeyError then Inr Map.empty
          else Inl e
      | Inr sensor_dict \<Rightarrow> Inr sensor_dict)"

fun sensor_loop ::
  "'c openevsehttp \<Rightarrow> const_py \<Rightarrow> 'c \<Rightarrow> string list \<Rightarrow> (string \<rightharpoonup> pyval)
     \<Rightarrow> exn + (string \<rightharpoonup> pyval)" where
  "sensor_loop lib K charger [] d = Inr d"
| "sensor_loop lib K charger (sensor # rest) d =
     (case sensor_step lib K charger sensor of
        Inl e \<Rightarrow> Inl e
      | Inr sensor_dict \<Rightarrow> sensor_loop lib K charger rest (d ++ sensor_dict))"

definition get_sensors ::
  "'c openevsehttp \<Rightarrow> const_py \<Rightarrow> hass \<Rightarrow> config_entry \<Rightarrow> lib_call list
     \<Rightarrow> lib_call list \<times> (exn + (string \<rightharpoonup> pyval))" where
  "get_sensors lib K hs cfg w =
     (let host = dict_get (map_of (data cfg)) CONF_HOST;
          username = dict_get (map_of (data cfg)) CONF_USERNAME;
          password = dict_get (map_of (data cfg)) CONF_PASSWORD;
          charger = OpenEVSE lib host username password;
          w1 = w @ [New_OpenEVSE host username password]
      in case update lib w1 charger of
           Inl error \<Rightarrow> (w1 @ [Call_update], Inr Map.empty)
         | Inr charger' \<Rightarrow>
             (w1 @ [Call_update],
              sensor_loop lib K charger' (map fst (SENSOR_TYPES K)) Map.empty))"

section \<open>The polling coordinator\<close>

text \<open>
  \<open>OpenEVSEUpdateCoordinator.__init__\<close>. The call to the base class stores
  \<open>update_interval\<close>; a new coordinator of the host framework has no data yet and
  \<open>last_update_success = True\<close>.
\<close>

definition OpenEVSEUpdateCoordinator :: "const_py \<Rightarrow> hass \<Rightarrow> int \<Rightarrow> config_entry \<Rightarrow> coordinator" where
  "OpenEVSEUpdateCoordinator K hs n cfg =
     (let self_interval = timedelta_of_seconds n;
          self_name = ''OpenEVSE ('' @ py_str (dict_get (map_of (data cfg)) (CONF_NAME K)) @ '')''
      in \<lparr>interval = self_interval, name = self_name, config = cfg,
          update_interval = self_interval, coordinator_data = None,
          last_update_success = True\<rparr>)"

text \<open>
  \<open>hass.async_add_executor_job(f, ...)\<close> runs \<open>f\<close> on a worker thread; awaiting it gives
  what \<open>f\<close> returns or raises what \<open>f\<close> raises.
\<close>

definition async_update_data ::
  "'c openevsehttp \<Rightarrow> const_py \<Rightarrow> hass \<Rightarrow> coordinator \<Rightarrow> lib_call list
     \<Rightarrow> lib_call list \<times> (exn + (string \<rightharpoonup> pyval))" where
  "async_update_data lib K hs self w =
     (case get_sensors lib K hs (config self) w of
        (w', Inl error) \<Rightarrow> (w', Inl (UpdateFailed error))
      | (w', Inr d) \<Rightarrow> (w', Inr d))"


section \<open>Connecting\<close>


section \<open>Setting up, unloading and updating an entry\<close>



text \<open>
  \<open>asyncio.gather\<close> over the platform unloads: the list of their results, or the
  exception of one that raised (the first in the order of \<open>PLATFORMS\<close>; which one it is
  matters to no caller).
\<close>

fun gather :: "(exn + 'a) list \<Rightarrow> exn + 'a list" where
  "gather [] = Inr []"
| "gather (Inl e # rs) = Inl e"
| "gather (Inr x # rs) = (case gather rs of Inl e \<Rightarrow> Inl e | Inr xs \<Rightarrow> Inr (x # xs))"

text \<open>
  \<open>forward_entry_unload\<close> is \<open>hass.config_entries.async_forward_entry_unload\<close> of the
  host: for the entry and a platform it answers whether the unload succeeded, or raises.
\<close>

definition async_unload_entry ::
  "const_py \<Rightarrow> (config_entry \<Rightarrow> string \<Rightarrow> exn + bool) \<Rightarrow> hass \<Rightarrow> config_entry
     \<Rightarrow> hass \<times> (exn + bool)" where
  "async_unload_entry K forward_entry_unload hs entry =
     (case gather (map (forward_entry_unload entry) (PLATFORMS K)) of
        Inl e \<Rightarrow> (hs, Inl e)
      | Inr results \<Rightarrow>
          let unload_ok = list_all (\<lambda>r. r) results
          in if unload_ok then
               (case dict_item (hass_data hs) (DOMAIN K) of
                  Inl e \<Rightarrow> (hs, Inl e)
                | Inr dom_data \<Rightarrow>
                    (case dict_item dom_data (entry_id entry) of
                       Inl e \<Rightarrow> (hs, Inl e)
                     | Inr _ \<Rightarrow>
                         (hs\<lparr>hass_data := (hass_data hs)
                                (DOMAIN K \<mapsto> dom_data(entry_id entry := None))\<rparr>,
                          Inr unload_ok)))
             else (hs, Inr unload_ok))"

text \<open>
  The two host calls of \<open>update_listener\<close>: \<open>async_update_entry(entry, data=d)\<close> stores
  \<open>d\<close> as the data of the entry, and \<open>async_reload(entry_id)\<close> is recorded in
  \<open>reloads\<close>.
\<close>

definition async_update_entry :: "config_entry \<Rightarrow> (string \<times> pyval) list \<Rightarrow> config_entry" where
  "async_update_entry entry d = entry\<lparr>data := d\<rparr>"

definition async_reload :: "hass \<Rightarrow> string \<Rightarrow> hass" where
  "async_reload hs eid = hs\<lparr>reloads := reloads hs @ [eid]\<rparr>"

definition update_listener :: "hass \<Rightarrow> config_entry \<Rightarrow> hass \<times> config_entry" where
  "update_listener hs entry =
     (if py_dict_eq (data entry) (options entry) then (hs, entry)
      else
        let new_data = options entry;
            entry' = async_update_entry entry new_data;
            hs' = async_reload hs (entry_id entry')
        in (hs', entry'))"

section \<open>Notions used in the statements\<close>

text \<open>
  The outcome of \<open>charger.update()\<close> as \<open>get_sensors\<close> and \<open>get_firmware\<close> call it: on
  the client built from the entry's host, user name and password, when the library has
  been asked \<open>w\<close> before.
\<close>

definition charger_update :: "'c openevsehttp \<Rightarrow> config_entry \<Rightarrow> lib_call list \<Rightarrow> exn + 'c" where
  "charger_update lib cfg w =
     update lib
       (w @ [New_OpenEVSE (dict_get (map_of (data cfg)) CONF_HOST) (dict_get (map_of (data cfg)) CONF_USERNAME)
               (dict_get (map_of (data cfg)) CONF_PASSWORD)])
       (OpenEVSE lib (dict_get (map_of (data cfg)) CONF_HOST) (dict_get (map_of (data cfg)) CONF_USERNAME)
          (dict_get (map_of (data cfg)) CONF_PASSWORD))"

text \<open>The exception classes named by the \<open>except\<close> clause of the sensor loop.\<close>

definition caught_in_loop :: "exn \<Rightarrow> bool" where
  "caught_in_loop e \<longleftrightarrow> e = RequestException \<or> e = ValueError \<or> e = KeyError"

text \<open>
  What one sensor contributes to the result of a completed loop: \<open>None\<close> for
  \<open>current_power\<close>, the attribute named by the sensor's key where reading it returns,
  and no entry where reading it raises or the name is not in the table.
\<close>

definition sensor_reading :: "'c openevsehttp \<Rightarrow> const_py \<Rightarrow> 'c \<Rightarrow> string \<rightharpoonup> pyval" where
  "sensor_reading lib K charger sensor =
     (case map_of (SENSOR_TYPES K) sensor of
        None \<Rightarrow> None
      | Some description \<Rightarrow>
          if sensor = ''current_power'' then Some PNone
          else (case getattr lib charger (key description) of
                  Inl e \<Rightarrow> None
                | Inr v \<Rightarrow> Some v))"


section \<open>Concrete inputs\<close>

definition demo_const :: const_py where
  "demo_const =
     \<lparr>CONF_NAME = ''name'', COORDINATOR = ''coordinator'', DOMAIN = ''openevse'',
      PLATFORMS = [''sensor'', ''select''],
      SENSOR_TYPES =
        [(''status'', \<lparr>key = ''status''\<rparr>),
         (''charge_time'', \<lparr>key = ''charge_time_elapsed''\<rparr>),
         (''current_power'', \<lparr>key = ''current_power''\<rparr>)]\<rparr>"

definition demo_entry :: config_entry where
  "demo_entry =
     \<lparr>entry_id = ''e1'',
      data = [(''host'', PStr ''192.168.1.30''), (''name'', PStr ''garage'')],
      options = [(''host'', PStr ''192.168.1.31''), (''name'', PStr ''garage'')],
      update_listeners = []\<rparr>"

definition demo_hass :: hass where
  "demo_hass =
     \<lparr>hass_data = Map.empty, device_registry = Map.empty, forward_entry_setups = [],
      reloads = []\<rparr>"

text \<open>A library whose device cannot be reached, and one whose device answers.\<close>

definition offline_lib :: "(pyval \<times> pyval \<times> pyval) openevsehttp" where
  "offline_lib =
     \<lparr>OpenEVSE = (\<lambda>h u p. (h, u, p)),
      update = (\<lambda>w c. Inl RequestException),
      getattr = (\<lambda>c a. Inl AttributeError)\<rparr>"

definition online_lib :: "(pyval \<times> pyval \<times> pyval) openevsehttp" where
  "online_lib =
     \<lparr>OpenEVSE = (\<lambda>h u p. (h, u, p)),
      update = (\<lambda>w c. Inr c),
      getattr = (\<lambda>c a.
        if a = ''status'' then Inr (PStr ''charging'')
        else if a = ''current_power'' then Inr (PInt 1500)
        else if a = ''charge_time_elapsed'' then Inl KeyError
        else if a = ''wifi_firmware'' then Inr (PStr ''4.1.2'')
        else if a = ''openevse_firmware'' then Inr (PStr ''7.1.3'')
        else Inl AttributeError)\<rparr>"

text \<open>The client object that either library builds for \<open>demo_entry\<close>.\<close>

definition demo_charger :: "pyval \<times> pyval \<times> pyval" where
  "demo_charger = (PStr ''192.168.1.30'', PNone, PNone)"

text \<open>A sensor table naming an attribute that the client object does not have.\<close>

definition unknown_attr_const :: const_py where
  "unknown_attr_const =
     demo_const\<lparr>SENSOR_TYPES := [(''ambient_temp'', \<lparr>key = ''ambient_temperature''\<rparr>)]\<rparr>"

text \<open>A coordinator for \<open>demo_entry\<close>, and a \<open>hass\<close> in which the entry is loaded.\<close>

definition demo_coordinator :: coordinator where
  "demo_coordinator = OpenEVSEUpdateCoordinator demo_const demo_hass 10 demo_entry"

definition demo_loaded_hass :: hass where
  "demo_loaded_hass =
     demo_hass\<lparr>hass_data := [''openevse'' \<mapsto> [''e1'' \<mapsto> [''coordinator'' \<mapsto> demo_coordinator]]]\<rparr>"

text \<open>
  A sensor table in which the first read raises a \<open>KeyError\<close> and the second an
  \<open>AttributeError\<close>.
\<close>

definition mixed_const :: const_py where
  "mixed_const =
     demo_const\<lparr>SENSOR_TYPES :=
       [(''charge_time'', \<lparr>key = ''charge_time_elapsed''\<rparr>),
        (''ambient_temp'', \<lparr>key = ''ambient_temperature''\<rparr>),
        (''status'', \<lparr>key = ''status''\<rparr>)]\<rparr>"

text \<open>An entry whose data and options differ as values but are equal for Python.\<close>

definition flag_entry :: config_entry where
  "flag_entry =
     \<lparr>entry_id = ''e2'', data = [(''flag'', PInt 1)], options = [(''flag'', PBool True)],
      update_listeners = []\<rparr>"

section \<open>The sensor loop\<close>

lemma sensor_step_Inr:
  assumes "sensor_step lib K c s = Inr m"
  shows "m = (case sensor_reading lib K c s of None \<Rightarrow> Map.empty | Some v \<Rightarrow> [s \<mapsto> v])"
  using assms
  by (auto simp: sensor_step_def sensor_try_def sensor_reading_def dict_item_def Let_def
      split: option.splits sum.splits if_splits)

lemma map_add_reading:
  "(d ++ (case r s of None \<Rightarrow> Map.empty | Some v \<Rightarrow> [s \<mapsto> v])) ++ (r |` A) = d ++ (r |` insert s A)"
  by (rule ext) (auto simp: map_add_def restrict_map_def split: option.splits)

lemma sensor_loop_result:
  "sensor_loop lib K c ks d0 = Inr d \<Longrightarrow> d = d0 ++ (sensor_reading lib K c |` set ks)"
proof (induction ks arbitrary: d0)
  case Nil
  then show ?case by simp
next
  case (Cons s ks)
  from Cons.prems obtain m where m: "sensor_step lib K c s = Inr m"
    and rest: "sensor_loop lib K c ks (d0 ++ m) = Inr d"
    by (auto split: sum.splits)
  from Cons.IH [OF rest] have "d = (d0 ++ m) ++ (sensor_reading lib K c |` set ks)" .
  then show ?case
    unfolding sensor_step_Inr [OF m] by (simp add: map_add_reading)
qed

lemma sensor_reading_outside:
  "sensor_reading lib K c |` set (map fst (SENSOR_TYPES K)) = sensor_reading lib K c"
proof (rule ext)
  fix s
  show "(sensor_reading lib K c |` set (map fst (SENSOR_TYPES K))) s = sensor_reading lib K c s"
  proof (cases "s \<in> fst ` set (SENSOR_TYPES K)")
    case True
    then show ?thesis by (simp add: restrict_map_def)
  next
    case False
    then have "map_of (SENSOR_TYPES K) s = None"
      by (simp add: map_of_eq_None_iff)
    then show ?thesis using False by (simp add: restrict_map_def sensor_reading_def)
  qed
qed

lemma sensor_step_returns:
  assumes "\<And>description e. map_of (SENSOR_TYPES K) s = Some description \<Longrightarrow> s \<noteq> ''current_power''
            \<Longrightarrow> getattr lib c (key description) = Inl e \<Longrightarrow> caught_in_loop e"
  shows "\<exists>m. sensor_step lib K c s = Inr m"
  using assms
  by (auto simp: sensor_step_def sensor_try_def dict_item_def Let_def caught_in_loop_def
      split: option.splits sum.splits)

lemma sensor_loop_returns:
  assumes "\<And>s description e. map_of (SENSOR_TYPES K) s = Some description \<Longrightarrow> s \<noteq> ''current_power''
            \<Longrightarrow> getattr lib c (key description) = Inl e \<Longrightarrow> caught_in_loop e"
  shows "\<exists>d. sensor_loop lib K c ks d0 = Inr d"
proof (induction ks arbitrary: d0)
  case Nil
  then show ?case by simp
next
  case (Cons s ks)
  obtain m where "sensor_step lib K c s = Inr m"
    using sensor_step_returns [of K s lib c] assms by blast
  then show ?case using Cons.IH by simp
qed

lemma sensor_step_raises:
  assumes "map_of (SENSOR_TYPES K) s = Some description" and "s \<noteq> ''current_power''"
    and "getattr lib c (key description) = Inl e" and "\<not> caught_in_loop e"
  shows "sensor_step lib K c s = Inl e"
  using assms
  by (simp add: sensor_step_def sensor_try_def dict_item_def Let_def caught_in_loop_def)

lemma sensor_loop_propagates:
  assumes "\<forall>s' \<in> set pre. \<exists>m. sensor_step lib K c s' = Inr m"
    and "sensor_step lib K c s = Inl e"
  shows "sensor_loop lib K c (pre @ s # rest) d = Inl e"
  using assms
proof (induction pre arbitrary: d)
  case Nil
  then show ?case by simp
next
  case (Cons p pre)
  then obtain m where "sensor_step lib K c p = Inr m" by auto
  with Cons show ?case by simp
qed

lemma get_sensors_online:
  "charger_update lib cfg w = Inr charger \<Longrightarrow>
   snd (get_sensors lib K hs cfg w) = sensor_loop lib K charger (map fst (SENSOR_TYPES K)) Map.empty"
  by (simp add: get_sensors_def charger_update_def Let_def)

lemma get_sensors_Inr_reading:
  assumes "charger_update lib cfg w = Inr charger"
    and "snd (get_sensors lib K hs cfg w) = Inr d"
  shows "d = sensor_reading lib K charger"
proof -
  have l: "sensor_loop lib K charger (map fst (SENSOR_TYPES K)) Map.empty = Inr d"
    using assms(2) by (simp only: get_sensors_online [OF assms(1)])
  have "d = Map.empty ++ (sensor_reading lib K charger |` set (map fst (SENSOR_TYPES K)))"
    by (rule sensor_loop_result [OF l])
  then show ?thesis
    unfolding sensor_reading_outside by simp
qed

lemma get_sensors_returns_reading:
  assumes "charger_update lib cfg w = Inr charger"
    and "\<forall>s description e. map_of (SENSOR_TYPES K) s = Some description \<and> s \<noteq> ''current_power''
            \<and> getattr lib charger (key description) = Inl e \<longrightarrow> caught_in_loop e"
  shows "snd (get_sensors lib K hs cfg w) = Inr (sensor_reading lib K charger)"
proof -
  obtain d where d: "sensor_loop lib K charger (map fst (SENSOR_TYPES K)) Map.empty = Inr d"
    using sensor_loop_returns [of K lib charger] assms(2) by blast
  then have g: "snd (get_sensors lib K hs cfg w) = Inr d"
    by (simp only: get_sensors_online [OF assms(1)])
  from get_sensors_Inr_reading [OF assms(1) g] g show ?thesis by simp
qed

section \<open>Equality of dictionaries\<close>

lemma py_eq_refl: "py_eq v v"
  by (cases v) simp_all

lemma py_dict_eq_refl: "py_dict_eq d d"
  by (simp add: py_dict_eq_def list_all_iff option.rel_refl py_eq_refl)

section \<open>The coordinator and the entry set-up\<close>




section \<open>Gathering the platform unloads\<close>

lemma gather_Inr_D: "gather rs = Inr xs \<Longrightarrow> rs = map Inr xs"
proof (induction rs arbitrary: xs)
  case Nil
  then show ?case by simp
next
  case (Cons r rs)
  show ?case
  proof (cases r)
    case (Inl e)
    with Cons.prems show ?thesis by simp
  next
    case (Inr x)
    with Cons.prems obtain ys where ys: "gather rs = Inr ys" and xs: "xs = x # ys"
      by (auto split: sum.splits)
    from Cons.IH [OF ys] xs Inr show ?thesis by simp
  qed
qed

lemma gather_Inl_failed: "gather (map f ps) = Inl e \<Longrightarrow> \<not> list_all (\<lambda>p. f p = Inr True) ps"
proof (induction ps)
  case Nil
  then show ?case by simp
next
  case (Cons p ps)
  then show ?case
    by (cases "f p") (auto split: sum.splits)
qed

lemma gather_results_all:
  "map f ps = map Inr results \<Longrightarrow> list_all (\<lambda>r. r) results \<longleftrightarrow> list_all (\<lambda>p. f p = Inr True) ps"
proof (induction ps arbitrary: results)
  case Nil
  then show ?case by simp
next
  case (Cons p ps)
  then show ?case by (cases results) auto
qed

section \<open>Facts about the concrete inputs\<close>

lemma demo_update_online: "charger_update online_lib demo_entry [] = Inr demo_charger"
  by (simp add: charger_update_def online_lib_def demo_entry_def demo_charger_def dict_get_def
      CONF_HOST_def CONF_USERNAME_def CONF_PASSWORD_def)

lemma demo_update_offline: "charger_update offline_lib demo_entry [] = Inl RequestException"
  by (simp add: charger_update_def offline_lib_def)

lemma demo_readings:
  "sensor_reading online_lib demo_const demo_charger ''status'' = Some (PStr ''charging'')"
  "sensor_reading online_lib demo_const demo_charger ''charge_time'' = None"
  "sensor_reading online_lib demo_const demo_charger ''current_power'' = Some PNone"
  by (simp_all add: sensor_reading_def demo_const_def online_lib_def)

lemma demo_lookups_caught:
  "\<forall>s description e. map_of (SENSOR_TYPES demo_const) s = Some description
     \<and> s \<noteq> ''current_power''
     \<and> getattr online_lib demo_charger (key description) = Inl e \<longrightarrow> caught_in_loop e"
  by (auto simp: demo_const_def online_lib_def caught_in_loop_def split: if_splits)

lemma demo_get_sensors:
  "snd (get_sensors online_lib demo_const demo_hass demo_entry [])
     = Inr (sensor_reading online_lib demo_const demo_charger)"
  by (rule get_sensors_returns_reading [OF demo_update_online demo_lookups_caught])

lemma demo_get_sensors_raises:
  "snd (get_sensors online_lib unknown_attr_const demo_hass demo_entry []) = Inl AttributeError"
proof -
  have "sensor_step online_lib unknown_attr_const demo_charger ''ambient_temp'' = Inl AttributeError"
    by (simp add: sensor_step_def sensor_try_def dict_item_def unknown_attr_const_def
        demo_const_def online_lib_def)
  then show ?thesis
    by (simp add: get_sensors_online [OF demo_update_online] unknown_attr_const_def demo_const_def)
qed

lemma demo_coordinator_config: "config demo_coordinator = demo_entry"
  by (simp add: demo_coordinator_def OpenEVSEUpdateCoordinator_def Let_def)


section \<open>Command outcomes\<close>

text \<open>
  C1, as stated, fails: a handler that raises gives \<open>send_command\<close> a fourth outcome,
  the exception of the handler, which is none of the three the claim allows.
\<close>

theorem handler_exception_counterexample:
  "send_command (\<lambda>c. Inl RequestException) ''$FE'' = Inl RequestException
   \<and> send_command (\<lambda>c. Inl RequestException) ''$FE'' \<noteq> Inr ()
   \<and> send_command (\<lambda>c. Inl RequestException) ''$FE'' \<noteq> Inl InvalidValue
   \<and> send_command (\<lambda>c. Inl RequestException) ''$FE'' \<noteq> Inl CommandFailed"
  by (simp add: send_command_def)

text \<open>
  C1, amended. Whenever the handler answers \<open>(cmd, response)\<close>, \<open>send_command\<close> returns
  \<open>None\<close> exactly if \<open>cmd\<close> is the command and the response is not \<open>$NK^21\<close>, raises
  \<open>InvalidValue\<close> exactly if \<open>cmd\<close> is the command and the response is \<open>$NK^21\<close>, raises
  \<open>CommandFailed\<close> exactly if \<open>cmd\<close> differs from the command, and has no fourth outcome;
  whenever the handler raises, \<open>send_command\<close> raises the same exception.
\<close>

theorem send_command_outcomes:
  "(handler command = Inr (cmd, response) \<longrightarrow>
      (send_command handler command = Inr () \<longleftrightarrow> cmd = command \<and> response \<noteq> ''$NK^21'')
    \<and> (send_command handler command = Inl InvalidValue \<longleftrightarrow> cmd = command \<and> response = ''$NK^21'')
    \<and> (send_command handler command = Inl CommandFailed \<longleftrightarrow> cmd \<noteq> command)
    \<and> send_command handler command \<in> {Inr (), Inl InvalidValue, Inl CommandFailed})
   \<and> (handler command = Inl e \<longrightarrow> send_command handler command = Inl e)"
  by (simp add: send_command_def)

theorem send_command_outcomes_witness:
  "send_command (\<lambda>c. Inr (c, ''$OK^20'')) ''$FE'' = Inr ()
   \<and> send_command (\<lambda>c. Inr (c, ''$NK^21'')) ''$SC 80'' = Inl InvalidValue
   \<and> send_command (\<lambda>c. Inr (''$XX'', ''$OK^20'')) ''$FE'' = Inl CommandFailed
   \<and> send_command (\<lambda>c. Inl (OtherException ''timeout'')) ''$FE'' = Inl (OtherException ''timeout'')"
  using send_command_outcomes [of "\<lambda>c. Inr (c, ''$OK^20'')" "''$FE''" "''$FE''" "''$OK^20''"]
    send_command_outcomes [of "\<lambda>c. Inr (c, ''$NK^21'')" "''$SC 80''" "''$SC 80''" "''$NK^21''"]
    send_command_outcomes [of "\<lambda>c. Inr (''$XX'', ''$OK^20'')" "''$FE''" "''$XX''" "''$OK^20''"]
    send_command_outcomes [of "\<lambda>c. Inl (OtherException ''timeout'')" "''$FE''" _ _
      "OtherException ''timeout''"]
  by simp

section \<open>A failing update\<close>

text \<open>
  C2. If \<open>charger.update()\<close> raises, whatever the exception, \<open>get_sensors\<close> returns the
  empty dictionary and \<open>get_firmware\<close> returns the pair of empty strings: both return, and
  neither raises.
\<close>

theorem update_failure_caught:
  assumes "charger_update lib cfg w = Inl error"
  shows "snd (get_sensors lib K hs cfg w) = Inr Map.empty
       \<and> snd (get_firmware lib cfg w) = Inr (PStr [], PStr [])"
  using assms by (simp add: get_sensors_def get_firmware_def charger_update_def Let_def)

theorem update_failure_caught_witness:
  "charger_update offline_lib demo_entry [] = Inl RequestException
   \<and> snd (get_sensors offline_lib demo_const demo_hass demo_entry []) = Inr Map.empty
   \<and> snd (get_firmware offline_lib demo_entry []) = Inr (PStr [], PStr [])"
  using demo_update_offline
    update_failure_caught [OF demo_update_offline, of demo_const demo_hass]
  by simp

section \<open>Exceptions inside the sensor loop\<close>

text \<open>
  C3, as stated, fails: the update succeeds, reading the attribute of the only sensor
  raises \<open>AttributeError\<close>, which the loop does not catch, and \<open>get_sensors\<close> raises it.
\<close>

theorem uncaught_sensor_exception_counterexample:
  "charger_update online_lib demo_entry [] = Inr demo_charger
   \<and> getattr online_lib demo_charger ''ambient_temperature'' = Inl AttributeError
   \<and> snd (get_sensors online_lib unknown_attr_const demo_hass demo_entry []) = Inl AttributeError"
proof -
  have a: "getattr online_lib demo_charger ''ambient_temperature'' = Inl AttributeError"
    by (simp add: online_lib_def)
  with demo_update_online demo_get_sensors_raises show ?thesis by simp
qed

text \<open>
  C3, amended. Once the update has succeeded: if every exception raised by reading the
  attribute of a sensor is a \<open>RequestException\<close>, a \<open>ValueError\<close> or a \<open>KeyError\<close>, then
  \<open>get_sensors\<close> does not raise, and returns the dictionary that holds, for each sensor
  of the table, \<open>None\<close> for \<open>current_power\<close>, the attribute where reading it returned, and
  no entry where reading it raised, the sensors after a skipped one included. If reading
  the attribute of a sensor raises an exception of any other class, and the reads of the
  sensors before it in the table returned or raised one of the three classes, then
  \<open>get_sensors\<close> raises that exception.
\<close>

theorem listed_exceptions_caught:
  assumes "charger_update lib cfg w = Inr charger"
  shows "((\<forall>s description e. map_of (SENSOR_TYPES K) s = Some description \<and> s \<noteq> ''current_power''
             \<and> getattr lib charger (key description) = Inl e \<longrightarrow> caught_in_loop e)
          \<longrightarrow> snd (get_sensors lib K hs cfg w) = Inr (sensor_reading lib K charger))
       \<and> (map fst (SENSOR_TYPES K) = pre @ sensor # rest
           \<and> (\<forall>s \<in> set pre. \<forall>description e. map_of (SENSOR_TYPES K) s = Some description
                 \<and> s \<noteq> ''current_power'' \<and> getattr lib charger (key description) = Inl e
                 \<longrightarrow> caught_in_loop e)
           \<and> map_of (SENSOR_TYPES K) sensor = Some description' \<and> sensor \<noteq> ''current_power''
           \<and> getattr lib charger (key description') = Inl e' \<and> \<not> caught_in_loop e'
          \<longrightarrow> snd (get_sensors lib K hs cfg w) = Inl e')"
proof (intro conjI impI)
  assume "\<forall>s description e. map_of (SENSOR_TYPES K) s = Some description \<and> s \<noteq> ''current_power''
             \<and> getattr lib charger (key description) = Inl e \<longrightarrow> caught_in_loop e"
  with assms show "snd (get_sensors lib K hs cfg w) = Inr (sensor_reading lib K charger)"
    by (rule get_sensors_returns_reading)
next
  assume a: "map fst (SENSOR_TYPES K) = pre @ sensor # rest
           \<and> (\<forall>s \<in> set pre. \<forall>description e. map_of (SENSOR_TYPES K) s = Some description
                 \<and> s \<noteq> ''current_power'' \<and> getattr lib charger (key description) = Inl e
                 \<longrightarrow> caught_in_loop e)
           \<and> map_of (SENSOR_TYPES K) sensor = Some description' \<and> sensor \<noteq> ''current_power''
           \<and> getattr lib charger (key description') = Inl e' \<and> \<not> caught_in_loop e'"
  have pre: "\<forall>s' \<in> set pre. \<exists>m. sensor_step lib K charger s' = Inr m"
  proof
    fix s'
    assume "s' \<in> set pre"
    with a show "\<exists>m. sensor_step lib K charger s' = Inr m"
      by (intro sensor_step_returns) blast
  qed
  have "sensor_step lib K charger sensor = Inl e'"
    using a by (intro sensor_step_raises [of K sensor description']) simp_all
  from sensor_loop_propagates [OF pre this]
  have "sensor_loop lib K charger (pre @ sensor # rest) Map.empty = Inl e'" .
  with a show "snd (get_sensors lib K hs cfg w) = Inl e'"
    by (simp add: get_sensors_online [OF assms])
qed

theorem listed_exceptions_caught_witness:
  "charger_update online_lib demo_entry [] = Inr demo_charger
   \<and> getattr online_lib demo_charger ''charge_time_elapsed'' = Inl KeyError
   \<and> snd (get_sensors online_lib demo_const demo_hass demo_entry [])
       = Inr (sensor_reading online_lib demo_const demo_charger)
   \<and> sensor_reading online_lib demo_const demo_charger ''status'' = Some (PStr ''charging'')
   \<and> sensor_reading online_lib demo_const demo_charger ''charge_time'' = None
   \<and> sensor_reading online_lib demo_const demo_charger ''current_power'' = Some PNone
   \<and> getattr online_lib demo_charger ''ambient_temperature'' = Inl AttributeError
   \<and> snd (get_sensors online_lib mixed_const demo_hass demo_entry []) = Inl AttributeError"
proof -
  have k: "getattr online_lib demo_charger ''charge_time_elapsed'' = Inl KeyError"
    and a: "getattr online_lib demo_charger ''ambient_temperature'' = Inl AttributeError"
    by (simp_all add: online_lib_def)
  have t: "map fst (SENSOR_TYPES mixed_const) = [''charge_time''] @ ''ambient_temp'' # [''status'']"
    by (simp add: mixed_const_def)
  have p: "\<forall>s \<in> set [''charge_time'']. \<forall>description e.
             map_of (SENSOR_TYPES mixed_const) s = Some description
             \<and> s \<noteq> ''current_power'' \<and> getattr online_lib demo_charger (key description) = Inl e
             \<longrightarrow> caught_in_loop e"
    by (auto simp: mixed_const_def online_lib_def caught_in_loop_def)
  have m: "map_of (SENSOR_TYPES mixed_const) ''ambient_temp'' = Some \<lparr>key = ''ambient_temperature''\<rparr>"
    by (simp add: mixed_const_def)
  have n: "\<not> caught_in_loop AttributeError"
    by (simp add: caught_in_loop_def)
  have r: "snd (get_sensors online_lib mixed_const demo_hass demo_entry []) = Inl AttributeError"
    using listed_exceptions_caught [OF demo_update_online, where K = mixed_const
        and pre = "[''charge_time'']" and sensor = "''ambient_temp''" and rest = "[''status'']"
        and description' = "\<lparr>key = ''ambient_temperature''\<rparr>" and e' = AttributeError
        and hs = demo_hass, THEN conjunct2]
      t p m n a
    by simp
  have c: "snd (get_sensors online_lib demo_const demo_hass demo_entry [])
       = Inr (sensor_reading online_lib demo_const demo_charger)"
    using listed_exceptions_caught [OF demo_update_online, where K = demo_const
        and hs = demo_hass, THEN conjunct1] demo_lookups_caught
    by blast
  show ?thesis
    using demo_update_online k a r c demo_readings by simp
qed

section \<open>Contents of the state-code table\<close>

text \<open>
  C4. The table \<open>states\<close> is defined on exactly the codes 0 to 10, 254 and 255, with the
  thirteen names listed. It is a constant: no function of the module takes or returns it.
\<close>

theorem states_table:
  "dom states = {0..10} \<union> {254, 255}
   \<and> states 0 = Some ''unknown''
   \<and> states 1 = Some ''not connected''
   \<and> states 2 = Some ''connected''
   \<and> states 3 = Some ''charging''
   \<and> states 4 = Some ''vent required''
   \<and> states 5 = Some ''diode check failed''
   \<and> states 6 = Some ''gfci fault''
   \<and> states 7 = Some ''no ground''
   \<and> states 8 = Some ''stuck relay''
   \<and> states 9 = Some ''gfci self-test failure''
   \<and> states 10 = Some ''over temperature''
   \<and> states 254 = Some ''sleeping''
   \<and> states 255 = Some ''disabled''"
proof -
  have d: "dom states = {0,1,2,3,4,5,6,7,8,9,10,254,255}"
    unfolding states_def by (simp add: dom_map_of_conv_image_fst)
  have r: "{0..10::int} = {0,1,2,3,4,5,6,7,8,9,10}"
    by (auto, arith)
  have v: "states 0 = Some ''unknown''"
    "states 1 = Some ''not connected''"
    "states 2 = Some ''connected''"
    "states 3 = Some ''charging''"
    "states 4 = Some ''vent required''"
    "states 5 = Some ''diode check failed''"
    "states 6 = Some ''gfci fault''"
    "states 7 = Some ''no ground''"
    "states 8 = Some ''stuck relay''"
    "states 9 = Some ''gfci self-test failure''"
    "states 10 = Some ''over temperature''"
    "states 254 = Some ''sleeping''"
    "states 255 = Some ''disabled''"
    unfolding states_def by simp_all
  show ?thesis unfolding d r using v by auto
qed

section \<open>Sensor values\<close>

text \<open>
  C5, as stated, fails for the sensor \<open>current_power\<close>: the update succeeds, the attribute
  named by its key reads as 1500 without raising, and \<open>get_sensors\<close> returns a dictionary
  that holds \<open>None\<close> for it.
\<close>

theorem current_power_not_attribute_counterexample:
  "charger_update online_lib demo_entry [] = Inr demo_charger
   \<and> map_of (SENSOR_TYPES demo_const) ''current_power'' = Some \<lparr>key = ''current_power''\<rparr>
   \<and> getattr online_lib demo_charger ''current_power'' = Inr (PInt 1500)
   \<and> \<not> isl (snd (get_sensors online_lib demo_const demo_hass demo_entry []))
   \<and> projr (snd (get_sensors online_lib demo_const demo_hass demo_entry [])) ''current_power''
       = Some PNone"
proof -
  have m: "map_of (SENSOR_TYPES demo_const) ''current_power'' = Some \<lparr>key = ''current_power''\<rparr>"
    by (simp add: demo_const_def)
  have a: "getattr online_lib demo_charger ''current_power'' = Inr (PInt 1500)"
    by (simp add: online_lib_def)
  show ?thesis using demo_update_online m a demo_readings(3) by (simp add: demo_get_sensors)
qed

text \<open>
  C5, amended. When the update succeeds and \<open>get_sensors\<close> returns a dictionary, then for
  every sensor name of the table other than \<open>current_power\<close> whose attribute read does not
  raise, the dictionary holds under that name exactly the attribute named by the sensor's
  key; under \<open>current_power\<close> it holds \<open>None\<close>.
\<close>

theorem sensor_value_is_attribute:
  assumes "charger_update lib cfg w = Inr charger"
    and "snd (get_sensors lib K hs cfg w) = Inr d"
    and "map_of (SENSOR_TYPES K) sensor = Some description"
  shows "(sensor \<noteq> ''current_power'' \<and> getattr lib charger (key description) = Inr v
            \<longrightarrow> d sensor = Some v)
       \<and> (sensor = ''current_power'' \<longrightarrow> d sensor = Some PNone)"
proof -
  have "d = sensor_reading lib K charger"
    by (rule get_sensors_Inr_reading [OF assms(1) assms(2)])
  then show ?thesis using assms(3) by (auto simp: sensor_reading_def)
qed

theorem sensor_value_is_attribute_witness:
  "charger_update online_lib demo_entry [] = Inr demo_charger
   \<and> snd (get_sensors online_lib demo_const demo_hass demo_entry [])
       = Inr (sensor_reading online_lib demo_const demo_charger)
   \<and> map_of (SENSOR_TYPES demo_const) ''status'' = Some \<lparr>key = ''status''\<rparr>
   \<and> getattr online_lib demo_charger ''status'' = Inr (PStr ''charging'')
   \<and> sensor_reading online_lib demo_const demo_charger ''status'' = Some (PStr ''charging'')"
proof -
  have m: "map_of (SENSOR_TYPES demo_const) ''status'' = Some \<lparr>key = ''status''\<rparr>"
    by (simp add: demo_const_def)
  have a: "getattr online_lib demo_charger ''status'' = Inr (PStr ''charging'')"
    by (simp add: online_lib_def)
  show ?thesis
    using sensor_value_is_attribute [OF demo_update_online demo_get_sensors m, of "PStr ''charging''"]
      demo_update_online demo_get_sensors m a
    by simp
qed

section \<open>Credentials\<close>


section \<open>The update listener\<close>

text \<open>
  C7. After \<open>update_listener\<close> the data of the entry equals its options, equality being
  that of Python's \<open>==\<close>. If they were equal before, \<open>hass\<close> and the entry are unchanged, so
  no reload is asked for; otherwise the data is replaced by the options, nothing else of
  the entry changes, and one reload of the entry is asked for.
\<close>

theorem update_listener_syncs:
  "py_dict_eq (data (snd (update_listener hs entry))) (options (snd (update_listener hs entry)))
   \<and> (py_dict_eq (data entry) (options entry) \<longrightarrow> update_listener hs entry = (hs, entry))
   \<and> (\<not> py_dict_eq (data entry) (options entry) \<longrightarrow>
        update_listener hs entry
          = (hs\<lparr>reloads := reloads hs @ [entry_id entry]\<rparr>, entry\<lparr>data := options entry\<rparr>))"
  by (simp add: update_listener_def async_update_entry_def async_reload_def Let_def
      py_dict_eq_refl)

theorem update_listener_syncs_witness:
  "\<not> py_dict_eq (data demo_entry) (options demo_entry)
   \<and> update_listener demo_hass demo_entry
     = (demo_hass\<lparr>reloads := reloads demo_hass @ [entry_id demo_entry]\<rparr>,
        demo_entry\<lparr>data := options demo_entry\<rparr>)
   \<and> py_dict_eq (data flag_entry) (options flag_entry)
   \<and> update_listener demo_hass flag_entry = (demo_hass, flag_entry)"
proof -
  have d: "\<not> py_dict_eq (data demo_entry) (options demo_entry)"
    by (simp add: py_dict_eq_def demo_entry_def)
  have f: "py_dict_eq (data flag_entry) (options flag_entry)"
    by (simp add: py_dict_eq_def flag_entry_def)
  show ?thesis
    using update_listener_syncs [where hs = demo_hass and entry = demo_entry]
      update_listener_syncs [where hs = demo_hass and entry = flag_entry] d f
    by simp
qed

section \<open>One polling cycle\<close>

text \<open>
  C8. \<open>_async_update_data\<close> raises exactly if the job running \<open>get_sensors\<close> raises, and
  what it raises is \<open>UpdateFailed\<close>, carrying the error of the job; if the job returns, its
  dictionary is returned as it is. When the device cannot be reached, so that \<open>update\<close>
  raises, the cycle returns the empty dictionary.
\<close>

theorem update_data_outcome:
  "(\<forall>e. snd (get_sensors lib K hs (config self) w) = Inl e
        \<longrightarrow> snd (async_update_data lib K hs self w) = Inl (UpdateFailed e))
   \<and> (\<forall>d. snd (get_sensors lib K hs (config self) w) = Inr d
        \<longrightarrow> snd (async_update_data lib K hs self w) = Inr d)
   \<and> (isl (snd (async_update_data lib K hs self w))
        \<longleftrightarrow> isl (snd (get_sensors lib K hs (config self) w)))
   \<and> (\<forall>x. snd (async_update_data lib K hs self w) = Inl x \<longrightarrow> (\<exists>e. x = UpdateFailed e))
   \<and> (\<forall>error. charger_update lib (config self) w = Inl error
        \<longrightarrow> snd (async_update_data lib K hs self w) = Inr Map.empty)"
proof -
  obtain w' r where g: "get_sensors lib K hs (config self) w = (w', r)"
    by (cases "get_sensors lib K hs (config self) w")
  have u: "\<And>error. charger_update lib (config self) w = Inl error \<Longrightarrow> r = Inr Map.empty"
  proof -
    fix error
    assume "charger_update lib (config self) w = Inl error"
    then have "snd (get_sensors lib K hs (config self) w) = Inr Map.empty"
      by (simp add: get_sensors_def charger_update_def Let_def)
    then show "r = Inr Map.empty" by (simp add: g)
  qed
  show ?thesis
    using u by (cases r) (auto simp: async_update_data_def g)
qed

theorem update_data_outcome_witness:
  "snd (get_sensors online_lib unknown_attr_const demo_hass (config demo_coordinator) [])
     = Inl AttributeError
   \<and> snd (async_update_data online_lib unknown_attr_const demo_hass demo_coordinator [])
     = Inl (UpdateFailed AttributeError)
   \<and> charger_update offline_lib (config demo_coordinator) [] = Inl RequestException
   \<and> snd (async_update_data offline_lib demo_const demo_hass demo_coordinator []) = Inr Map.empty
   \<and> snd (get_sensors online_lib demo_const demo_hass (config demo_coordinator) [])
     = Inr (sensor_reading online_lib demo_const demo_charger)
   \<and> snd (async_update_data online_lib demo_const demo_hass demo_coordinator [])
     = Inr (sensor_reading online_lib demo_const demo_charger)"
  using update_data_outcome [of online_lib unknown_attr_const demo_hass demo_coordinator "[]"]
    update_data_outcome [of offline_lib demo_const demo_hass demo_coordinator "[]"]
    update_data_outcome [of online_lib demo_const demo_hass demo_coordinator "[]"]
    demo_get_sensors_raises demo_update_offline demo_get_sensors
  by (simp add: demo_coordinator_config)

section \<open>The polling interval\<close>



section \<open>Unloading an entry\<close>

text \<open>
  C10, as stated, fails: every platform unload succeeds, but \<open>hass.data\<close> holds no record
  for the entry, and \<open>async_unload_entry\<close> raises \<open>KeyError\<close> instead of returning \<open>True\<close>.
\<close>

theorem unload_without_record_counterexample:
  "list_all (\<lambda>platform. (Inr True :: exn + bool) = Inr True) (PLATFORMS demo_const)
   \<and> hass_data demo_hass (DOMAIN demo_const) = None
   \<and> async_unload_entry demo_const (\<lambda>e platform. Inr True) demo_hass demo_entry
       = (demo_hass, Inl KeyError)"
  by (simp add: async_unload_entry_def dict_item_def demo_const_def demo_hass_def)

text \<open>
  C10, amended. \<open>async_unload_entry\<close> returns \<open>True\<close> only if every platform unload
  succeeded; if one of them did not, \<open>hass\<close> is left as it was, the record of the entry
  included; and for an entry whose record is stored in \<open>hass.data[DOMAIN]\<close>, if every
  platform unload succeeded then the function returns \<open>True\<close> and has removed exactly
  that record.
\<close>

theorem unload_entry_atomic:
  "(snd (async_unload_entry K fu hs entry) = Inr True
      \<longrightarrow> list_all (\<lambda>platform. fu entry platform = Inr True) (PLATFORMS K))
   \<and> (\<not> list_all (\<lambda>platform. fu entry platform = Inr True) (PLATFORMS K)
      \<longrightarrow> fst (async_unload_entry K fu hs entry) = hs)
   \<and> (hass_data hs (DOMAIN K) = Some dom_data \<and> dom_data (entry_id entry) = Some stored
       \<and> list_all (\<lambda>platform. fu entry platform = Inr True) (PLATFORMS K)
      \<longrightarrow> async_unload_entry K fu hs entry
            = (hs\<lparr>hass_data := (hass_data hs)(DOMAIN K \<mapsto> dom_data(entry_id entry := None))\<rparr>,
               Inr True))"
proof (cases "gather (map (fu entry) (PLATFORMS K))")
  case (Inl e)
  from gather_Inl_failed [OF Inl]
  have "\<not> list_all (\<lambda>platform. fu entry platform = Inr True) (PLATFORMS K)" .
  then show ?thesis by (simp add: async_unload_entry_def Inl)
next
  case (Inr results)
  then have "map (fu entry) (PLATFORMS K) = map Inr results"
    by (rule gather_Inr_D)
  from gather_results_all [OF this]
  have a: "list_all (\<lambda>r. r) results
            \<longleftrightarrow> list_all (\<lambda>platform. fu entry platform = Inr True) (PLATFORMS K)" .
  show ?thesis
    by (auto simp: async_unload_entry_def Inr a dict_item_def Let_def split: option.splits)
qed

theorem unload_entry_atomic_witness:
  "async_unload_entry demo_const (\<lambda>e platform. Inr True) demo_loaded_hass demo_entry
     = (demo_loaded_hass\<lparr>hass_data := [''openevse'' \<mapsto> Map.empty]\<rparr>, Inr True)
   \<and> snd (async_unload_entry demo_const (\<lambda>e platform. Inr (platform = ''sensor''))
            demo_loaded_hass demo_entry) \<noteq> Inr True
   \<and> fst (async_unload_entry demo_const (\<lambda>e platform. Inr (platform = ''sensor''))
            demo_loaded_hass demo_entry) = demo_loaded_hass"
proof -
  have d: "hass_data demo_loaded_hass (DOMAIN demo_const)
             = Some [''e1'' \<mapsto> [''coordinator'' \<mapsto> demo_coordinator]]"
    "[''e1'' \<mapsto> [''coordinator'' \<mapsto> demo_coordinator]] (entry_id demo_entry)
             = Some [''coordinator'' \<mapsto> demo_coordinator]"
    "DOMAIN demo_const = ''openevse''" "entry_id demo_entry = ''e1''"
    "PLATFORMS demo_const = [''sensor'', ''select'']"
    "hass_data demo_loaded_hass = [''openevse'' \<mapsto> [''e1'' \<mapsto> [''coordinator'' \<mapsto> demo_coordinator]]]"
    by (simp_all add: demo_loaded_hass_def demo_const_def demo_entry_def demo_hass_def)
  show ?thesis
    using unload_entry_atomic [of demo_const "\<lambda>e platform. Inr True" demo_loaded_hass demo_entry
        "[''e1'' \<mapsto> [''coordinator'' \<mapsto> demo_coordinator]]" "[''coordinator'' \<mapsto> demo_coordinator]"]
      unload_entry_atomic [of demo_const "\<lambda>e platform. Inr (platform = ''sensor'')"
        demo_loaded_hass demo_entry]
      d
    by simp
qed

end
